theory Spec2Isabelle
  imports Main "HOL-Library.Word"
begin

unbundle bit_operations_syntax

section \<open>Python values\<close>

text \<open>
  The module \<^verbatim>\<open>tonsdk/contract/wallet/_wallet_contract.py\<close> is dynamically typed: a
  field of a \<^verbatim>\<open>WalletMessage\<close>, a value of a dict and an argument of
  \<^verbatim>\<open>create_transfer_message\<close> can hold \<^verbatim>\<open>None\<close>, an \<^verbatim>\<open>int\<close>, a \<^verbatim>\<open>str\<close>, a
  \<^verbatim>\<open>bytes\<close> or a \<^verbatim>\<open>Cell\<close>. A \<^verbatim>\<open>str\<close> is represented by its UTF-8 encoding, one
  \<open>char\<close> per byte, so it is empty exactly when its encoding is.
\<close>

type_synonym byte = "8 word"

text \<open>
  Modelled from the spec: the class \<^verbatim>\<open>Cell\<close> (\<^verbatim>\<open>tonsdk.boc\<close>) is not among the
  sources. A cell is "a bounded bit-string plus an ordered set of child cells":
  \<^verbatim>\<open>cell.bits\<close> and \<^verbatim>\<open>cell.refs\<close>. \<^verbatim>\<open>Cell()\<close> is \<open>Cell [] []\<close>.
\<close>

datatype cell = Cell (bits: "bool list") (refs: "cell list")

datatype pyval =
    PyNone
  | PyInt int
  | PyStr string
  | PyBytes "byte list"
  | PyCell cell

text \<open>A dict, in insertion order; its keys are distinct.\<close>

type_synonym pydict = "(string \<times> pyval) list"

text \<open>
  The exceptions of the module. \<open>ConfigurationError\<close> is the \<^verbatim>\<open>Exception\<close> of
  \<^verbatim>\<open>WalletContract.__init__\<close>, \<open>TooManyRecipientsError\<close> the one of
  \<^verbatim>\<open>create_transfer_message\<close>; \<open>KeyError\<close>, \<open>AttributeError\<close> and \<open>TypeError\<close> are
  Python's own; \<open>CellError\<close> is raised by the cell engine and \<open>CollaboratorError\<close> by
  the other code this module calls.
\<close>

datatype error =
    ConfigurationError
  | TooManyRecipientsError
  | KeyError string
  | AttributeError string
  | TypeError
  | CellError
  | CollaboratorError string

definition and_then :: "error + 'x \<Rightarrow> ('x \<Rightarrow> error + 'y) \<Rightarrow> error + 'y" where
  "and_then m f = (case m of Inl e \<Rightarrow> Inl e | Inr x \<Rightarrow> f x)"

definition collaborator :: "string + 'x \<Rightarrow> error + 'x" where
  "collaborator r = (case r of Inl msg \<Rightarrow> Inl (CollaboratorError msg) | Inr x \<Rightarrow> Inr x)"

text \<open>
  Modelled from the spec: whether a \<^verbatim>\<open>Cell\<close> object is true is decided by the class
  \<^verbatim>\<open>Cell\<close>, which is not among the sources. A pre-built cell payload is "used
  verbatim", so a \<^verbatim>\<open>Cell\<close> object counts as true. The other cases are Python's truth
  test, which \<^verbatim>\<open>if payload:\<close> applies.
\<close>

fun truthy :: "pyval \<Rightarrow> bool" where
  "truthy PyNone = False"
| "truthy (PyInt n) = (n \<noteq> 0)"
| "truthy (PyStr s) = (s \<noteq> [])"
| "truthy (PyBytes b) = (b \<noteq> [])"
| "truthy (PyCell c) = True"

text \<open>\<^verbatim>\<open>k in d\<close>, \<^verbatim>\<open>d.get(k, default)\<close> and \<^verbatim>\<open>d[k] = v\<close>.\<close>

definition dict_contains :: "pydict \<Rightarrow> string \<Rightarrow> bool" where
  "dict_contains d k = (map_of d k \<noteq> None)"

definition dict_get :: "pydict \<Rightarrow> string \<Rightarrow> pyval \<Rightarrow> pyval" where
  "dict_get d k dflt = (case map_of d k of None \<Rightarrow> dflt | Some v \<Rightarrow> v)"

fun dict_set :: "pydict \<Rightarrow> string \<Rightarrow> pyval \<Rightarrow> pydict" where
  "dict_set [] k v = [(k, v)]"
| "dict_set ((k', v') # d) k v = (if k' = k then (k, v) # d else (k', v') # dict_set d k v)"

section \<open>The cell engine\<close>

text \<open>
  Modelled from the spec: the cell engine (\<^verbatim>\<open>tonsdk.boc.Cell\<close> and its bit string) is
  not among the sources. The engine appends a fixed-width unsigned integer, raw bytes,
  UTF-8 text, or another tree to a cell, and rejects a number that is negative or does
  not fit its width. The bound on the bit string is the parameter \<open>cap\<close> of each
  operation, which raises when the bits written would exceed it.
\<close>

text \<open>
  Modelled from the spec: the bits of a fixed-width unsigned integer, the most
  significant first.
\<close>

primrec uint_bits :: "nat \<Rightarrow> int \<Rightarrow> bool list" where
  "uint_bits 0 v = []"
| "uint_bits (Suc n) v = uint_bits n (v div 2) @ [v mod 2 = 1]"

text \<open>Modelled from the spec: the bits of raw bytes, eight per byte.\<close>

definition byte_bits :: "byte \<Rightarrow> bool list" where
  "byte_bits b = uint_bits 8 (uint b)"

definition bytes_bits :: "byte list \<Rightarrow> bool list" where
  "bytes_bits bs = concat (map byte_bits bs)"

text \<open>
  Modelled from the spec: the bytes of a UTF-8 text. A \<^verbatim>\<open>str\<close> is held by its encoding,
  so these are its characters.
\<close>

definition utf8 :: "string \<Rightarrow> byte list" where
  "utf8 s = map (\<lambda>c. of_nat (of_char c)) s"

text \<open>
  Modelled from the spec: appending bits to the bounded bit string of a cell.
\<close>

definition write_bits :: "nat \<Rightarrow> cell \<Rightarrow> bool list \<Rightarrow> error + cell" where
  "write_bits cap c bs =
     (if length (bits c) + length bs \<le> cap then Inr (Cell (bits c @ bs) (refs c))
      else Inl CellError)"

text \<open>
  Modelled from the spec: \<^verbatim>\<open>cell.bits.write_uint(number, bit_length)\<close>, "append
  fixed-width unsigned integer"; the serializer rejects a negative number and one that
  does not fit.
\<close>

definition write_uint :: "nat \<Rightarrow> cell \<Rightarrow> int \<Rightarrow> nat \<Rightarrow> error + cell" where
  "write_uint cap c number bit_length =
     (if 0 \<le> number \<and> number < 2 ^ bit_length
      then write_bits cap c (uint_bits bit_length number)
      else Inl CellError)"

text \<open>
  Modelled from the spec: \<^verbatim>\<open>cell.bits.write_uint8(ui8)\<close>, a value that "must fit in one
  byte"; Python raises a \<^verbatim>\<open>TypeError\<close> for an argument that is no number.
\<close>

definition write_uint8 :: "nat \<Rightarrow> cell \<Rightarrow> pyval \<Rightarrow> error + cell" where
  "write_uint8 cap c ui8 =
     (case ui8 of PyInt n \<Rightarrow> write_uint cap c n 8 | _ \<Rightarrow> Inl TypeError)"

text \<open>
  Modelled from the spec: \<^verbatim>\<open>cell.bits.write_bytes(ui8_array)\<close>, "append raw bytes";
  Python raises a \<^verbatim>\<open>TypeError\<close> for an argument that holds no bytes.
\<close>

definition write_bytes :: "nat \<Rightarrow> cell \<Rightarrow> pyval \<Rightarrow> error + cell" where
  "write_bytes cap c ui8_array =
     (case ui8_array of PyBytes bs \<Rightarrow> write_bits cap c (bytes_bits bs) | _ \<Rightarrow> Inl TypeError)"

text \<open>
  Modelled from the spec: \<^verbatim>\<open>cell.bits.write_string(value)\<close>, "append UTF-8 text".
\<close>

definition write_string :: "nat \<Rightarrow> cell \<Rightarrow> string \<Rightarrow> error + cell" where
  "write_string cap c s = write_bytes cap c (PyBytes (utf8 s))"

text \<open>
  Modelled from the spec: \<^verbatim>\<open>cell.write_cell(another_cell)\<close>, "merge with another
  tree": its bits and its references are appended.
\<close>

definition write_cell :: "nat \<Rightarrow> cell \<Rightarrow> cell \<Rightarrow> error + cell" where
  "write_cell cap c another_cell =
     and_then (write_bits cap c (bits another_cell))
       (\<lambda>c'. Inr (Cell (bits c') (refs c' @ refs another_cell)))"

section \<open>Send modes and wallet messages\<close>

definition carry_all_remaining_balance :: int where
  "carry_all_remaining_balance = 128"

definition carry_all_remaining_incoming_value :: int where
  "carry_all_remaining_incoming_value = 64"

definition destroy_account_if_zero :: int where
  "destroy_account_if_zero = 32"

definition ignore_errors :: int where
  "ignore_errors = 2"

definition pay_gas_separately :: int where
  "pay_gas_separately = 1"

text \<open>\<^verbatim>\<open>SendModeEnum.ignore_errors | SendModeEnum.pay_gas_separately\<close>\<close>

definition default_send_mode :: pyval where
  "default_send_mode = PyInt (ignore_errors OR pay_gas_separately)"

record WalletMessage =
  address :: pyval
  amount :: pyval
  send_mode :: pyval
  payload :: pyval
  state_init :: pyval

definition to_dict :: "WalletMessage \<Rightarrow> pydict" where
  "to_dict cls =
     (let d = [(''address'', address cls),
               (''amount'', amount cls),
               (''send_mode'', send_mode cls)];
          d = (if payload cls \<noteq> PyNone then dict_set d ''payload'' (payload cls) else d);
          d = (if state_init cls \<noteq> PyNone then dict_set d ''state_init'' (state_init cls)
               else d)
      in d)"

definition from_dict :: "pydict \<Rightarrow> WalletMessage" where
  "from_dict d =
     \<lparr> address = dict_get d ''address'' PyNone,
       amount = dict_get d ''amount'' PyNone,
       send_mode = dict_get d ''send_mode'' default_send_mode,
       payload = dict_get d ''payload'' PyNone,
       state_init = dict_get d ''state_init'' PyNone \<rparr>"

section \<open>The wallet contract and its collaborators\<close>

text \<open>
  The object \<^verbatim>\<open>self\<close>: the options given at construction. What \<^verbatim>\<open>Contract.__init__\<close>
  stores besides is seen only through the collaborators below.
\<close>

record WalletContract =
  options :: pydict

text \<open>What \<^verbatim>\<open>create_state_init\<close> returns: a dict with these four keys.\<close>

record 'a deploy =
  deploy_state_init :: cell
  deploy_code :: cell
  deploy_data :: cell
  deploy_address :: 'a

text \<open>
  The code this module calls and that is not among the sources, taken as parameters;
  \<open>'a\<close> is the type of \<^verbatim>\<open>Address\<close> objects. Each call either raises (\<open>Inl\<close>, with
  a message) or returns. \<open>create_internal_message_header\<close> receives the amount as it
  stands in the message: the conversion \<^verbatim>\<open>decimal.Decimal(recipient.amount)\<close> of its
  second argument is part of it. \<open>self_address\<close> is the property \<^verbatim>\<open>self.address\<close>,
  \<open>Contract_init\<close> is \<^verbatim>\<open>Contract.__init__\<close>, returning the options it stores.
\<close>

record 'a collaborators =
  cell_capacity :: nat
  Contract_init :: "pydict \<Rightarrow> string + pydict"
  Address :: "pyval \<Rightarrow> string + 'a"
  bytes_hash :: "cell \<Rightarrow> string + byte list"
  sign_message :: "byte list \<Rightarrow> pyval \<Rightarrow> string + byte list"
  create_internal_message_header :: "'a \<Rightarrow> pyval \<Rightarrow> string + cell"
  create_external_message_header :: "'a \<Rightarrow> string + cell"
  create_common_msg_info :: "cell \<Rightarrow> pyval \<Rightarrow> cell \<Rightarrow> string + cell"
  create_state_init :: "WalletContract \<Rightarrow> string + 'a deploy"
  self_address :: "WalletContract \<Rightarrow> string + 'a"

text \<open>\<^verbatim>\<open>WalletContract.__init__(self, **kwargs)\<close>\<close>

definition WalletContract_init :: "'a collaborators \<Rightarrow> pydict \<Rightarrow> error + WalletContract" where
  "WalletContract_init C kwargs =
     (if ((\<not> dict_contains kwargs ''public_key'' \<or> \<not> dict_contains kwargs ''private_key'')
           \<and> \<not> dict_contains kwargs ''address'')
         \<and> \<not> dict_contains kwargs ''public_keys''
      then Inl ConfigurationError
      else and_then (collaborator (Contract_init C kwargs))
             (\<lambda>opts. Inr \<lparr> options = opts \<rparr>))"

definition create_data_cell :: "'a collaborators \<Rightarrow> WalletContract \<Rightarrow> error + cell" where
  "create_data_cell C self =
     and_then (write_uint (cell_capacity C) (Cell [] []) 0 32)
       (\<lambda>cell. case map_of (options self) ''public_key'' of
                  None \<Rightarrow> Inl (KeyError ''public_key'')
                | Some public_key \<Rightarrow> write_bytes (cell_capacity C) cell public_key)"

definition create_signing_message :: "'a collaborators \<Rightarrow> int option \<Rightarrow> error + cell" where
  "create_signing_message C seqno =
     (let seqno = (case seqno of None \<Rightarrow> 0 | Some n \<Rightarrow> if n \<noteq> 0 then n else 0)
      in write_uint (cell_capacity C) (Cell [] []) seqno 32)"

section \<open>The external message\<close>

text \<open>The dict \<^verbatim>\<open>create_external_message\<close> returns, one field per key.\<close>

record 'a external_message =
  ext_address :: 'a
  ext_message :: cell
  ext_body :: cell
  ext_signature :: "byte list"
  ext_signing_message :: cell
  ext_state_init :: pyval
  ext_code :: pyval
  ext_data :: pyval

text \<open>
  \<^verbatim>\<open>sign_message(bytes(signing_message.bytes_hash()), self.options['private_key']).signature\<close>:
  the hash is computed first, then the key is looked up, then the primitive is called.
\<close>

definition real_signature ::
  "'a collaborators \<Rightarrow> WalletContract \<Rightarrow> cell \<Rightarrow> error + byte list" where
  "real_signature C self signing_message =
     and_then (collaborator (bytes_hash C signing_message))
       (\<lambda>h. case map_of (options self) ''private_key'' of
               None \<Rightarrow> Inl (KeyError ''private_key'')
             | Some private_key \<Rightarrow> collaborator (sign_message C h private_key))"

definition create_external_message ::
  "'a collaborators \<Rightarrow> WalletContract \<Rightarrow> cell \<Rightarrow> int option \<Rightarrow> bool
     \<Rightarrow> error + 'a external_message" where
  "create_external_message C self signing_message seqno dummy_signature =
     and_then (if dummy_signature then Inr (replicate 64 0)
               else real_signature C self signing_message)
     (\<lambda>signature.
     and_then (write_bytes (cell_capacity C) (Cell [] []) (PyBytes signature))
     (\<lambda>body0.
     and_then (write_cell (cell_capacity C) body0 signing_message)
     (\<lambda>body.
     and_then (if seqno = Some 0
               then and_then (collaborator (create_state_init C self))
                      (\<lambda>deploy. Inr (PyCell (deploy_state_init deploy),
                                     PyCell (deploy_code deploy),
                                     PyCell (deploy_data deploy)))
               else Inr (PyNone, PyNone, PyNone))
     (\<lambda>(state_init, code, data).
     and_then (collaborator (self_address C self))
     (\<lambda>self_address.
     and_then (collaborator (create_external_message_header C self_address))
     (\<lambda>header.
     and_then (collaborator (create_common_msg_info C header state_init body))
     (\<lambda>result_message.
       Inr \<lparr> ext_address = self_address,
             ext_message = result_message,
             ext_body = body,
             ext_signature = signature,
             ext_signing_message = signing_message,
             ext_state_init = state_init,
             ext_code = code,
             ext_data = data \<rparr>)))))))"

text \<open>
  Modelled from the spec: the signing primitive (\<^verbatim>\<open>sign_message\<close> of \<^verbatim>\<open>tonsdk.utils\<close>) is
  not among the sources. The spec says of its signature that it is "dependent on both
  the payload hash and the private key (changing either changes the signature)": on
  the hashes and keys \<open>D\<close> it is used with, two different pairs of a hash and a key
  never get the same signature.
\<close>

definition separates :: "'a collaborators \<Rightarrow> (byte list \<times> pyval) set \<Rightarrow> bool" where
  "separates C D =
     (\<forall>h k h' k' s. (h, k) \<in> D \<and> (h', k') \<in> D \<and>
        sign_message C h k = Inr s \<and> sign_message C h' k' = Inr s \<longrightarrow> h = h' \<and> k = k')"

section \<open>The transfer message\<close>

text \<open>
  What the loop of \<^verbatim>\<open>create_transfer_message\<close> iterates over: a \<^verbatim>\<open>WalletMessage\<close>, a
  dict, or (when a dict was passed where a list is expected) a key of that dict.
\<close>

datatype recipient =
    Message WalletMessage
  | Mapping pydict
  | Key string

text \<open>The argument \<^verbatim>\<open>recipients_list\<close>.\<close>

datatype recipients =
    NoRecipients
  | OneMessage WalletMessage
  | RecipientList "recipient list"
  | OneMapping pydict

text \<open>
  Lines 78 to 89: \<^verbatim>\<open>None\<close> becomes a list of one message built from the other
  arguments, a \<^verbatim>\<open>WalletMessage\<close> becomes a list of itself, anything else stays. The
  result is what \<^verbatim>\<open>len\<close> counts and the loop visits: for a dict, its keys.
\<close>

definition normalized ::
  "pyval \<Rightarrow> pyval \<Rightarrow> pyval \<Rightarrow> pyval \<Rightarrow> pyval \<Rightarrow> recipients \<Rightarrow> recipient list" where
  "normalized to_addr amnt pl mode st recipients_list =
     (case recipients_list of
        NoRecipients \<Rightarrow>
          [Message \<lparr> address = to_addr, amount = amnt, send_mode = mode,
                     payload = pl, state_init = st \<rparr>]
      | OneMessage m \<Rightarrow> [Message m]
      | RecipientList xs \<Rightarrow> xs
      | OneMapping d \<Rightarrow> map (\<lambda>kv. Key (fst kv)) d)"

text \<open>Lines 96, 97 and 99: the message a loop item stands for.\<close>

definition recipient_message :: "recipient \<Rightarrow> error + WalletMessage" where
  "recipient_message r =
     (case r of
        Mapping d \<Rightarrow> Inr (from_dict d)
      | Message m \<Rightarrow> Inr m
      | Key k \<Rightarrow> Inl (AttributeError ''payload''))"

text \<open>Lines 98 to 107: the payload cell.\<close>

definition payload_cell :: "nat \<Rightarrow> pyval \<Rightarrow> error + cell" where
  "payload_cell cap pl =
     (if truthy pl then
        (case pl of
           PyStr s \<Rightarrow>
             and_then (write_uint cap (Cell [] []) 0 32) (\<lambda>c. write_string cap c s)
         | PyCell c \<Rightarrow> Inr c
         | _ \<Rightarrow> write_bytes cap (Cell [] []) pl)
      else Inr (Cell [] []))"

text \<open>Lines 98 to 112: the order of one message.\<close>

definition order_cell :: "'a collaborators \<Rightarrow> WalletMessage \<Rightarrow> error + cell" where
  "order_cell C m =
     and_then (payload_cell (cell_capacity C) (payload m))
     (\<lambda>pc.
     and_then (collaborator (Address C (address m)))
     (\<lambda>dest.
     and_then (collaborator (create_internal_message_header C dest (amount m)))
     (\<lambda>order_header.
       collaborator (create_common_msg_info C order_header (state_init m) pc))))"

text \<open>The body of the loop, lines 96 to 114, and the loop.\<close>

definition add_recipient :: "'a collaborators \<Rightarrow> cell \<Rightarrow> recipient \<Rightarrow> error + cell" where
  "add_recipient C signing_message r =
     and_then (recipient_message r)
     (\<lambda>m.
     and_then (order_cell C m)
     (\<lambda>order.
     and_then (write_uint8 (cell_capacity C) signing_message (send_mode m))
     (\<lambda>sm. Inr (Cell (bits sm) (refs sm @ [order])))))"

fun add_recipients :: "'a collaborators \<Rightarrow> cell \<Rightarrow> recipient list \<Rightarrow> error + cell" where
  "add_recipients C signing_message [] = Inr signing_message"
| "add_recipients C signing_message (r # rs) =
     and_then (add_recipient C signing_message r) (\<lambda>sm. add_recipients C sm rs)"

definition create_transfer_message ::
  "'a collaborators \<Rightarrow> WalletContract \<Rightarrow> pyval \<Rightarrow> pyval \<Rightarrow> int option \<Rightarrow> pyval \<Rightarrow> pyval
     \<Rightarrow> bool \<Rightarrow> pyval \<Rightarrow> recipients \<Rightarrow> error + 'a external_message" where
  "create_transfer_message C self to_addr amnt seqno pl mode dummy_signature st
       recipients_list =
     (let rs = normalized to_addr amnt pl mode st recipients_list in
      if length rs > 4 then Inl TooManyRecipientsError
      else
        and_then (create_signing_message C seqno)
        (\<lambda>sm0.
        and_then (add_recipients C sm0 rs)
        (\<lambda>signing_message.
          create_external_message C self signing_message seqno dummy_signature)))"

text \<open>The dict \<^verbatim>\<open>create_init_external_message\<close> returns: it has no signature.\<close>

record 'a init_external_message =
  init_address :: 'a
  init_message :: cell
  init_body :: cell
  init_signing_message :: cell
  init_state_init :: cell
  init_code :: cell
  init_data :: cell

definition create_init_external_message ::
  "'a collaborators \<Rightarrow> WalletContract \<Rightarrow> error + 'a init_external_message" where
  "create_init_external_message C self =
     and_then (collaborator (create_state_init C self))
     (\<lambda>deploy.
     and_then (create_signing_message C None)
     (\<lambda>signing_message.
     and_then (real_signature C self signing_message)
     (\<lambda>signature.
     and_then (write_bytes (cell_capacity C) (Cell [] []) (PyBytes signature))
     (\<lambda>body0.
     and_then (write_cell (cell_capacity C) body0 signing_message)
     (\<lambda>body.
     and_then (collaborator (create_external_message_header C (deploy_address deploy)))
     (\<lambda>header.
     and_then (collaborator
                 (create_common_msg_info C header (PyCell (deploy_state_init deploy)) body))
     (\<lambda>external_message.
       Inr \<lparr> init_address = deploy_address deploy,
             init_message = external_message,
             init_body = body,
             init_signing_message = signing_message,
             init_state_init = deploy_state_init deploy,
             init_code = deploy_code deploy,
             init_data = deploy_data deploy \<rparr>)))))))"

section \<open>A concrete set of collaborators\<close>

text \<open>
  A small, total instance of the collaborators, with addresses kept as strings. It is
  used only to run the definitions on concrete inputs; every theorem below that speaks
  of the collaborators holds for all of them.
\<close>

definition sample_collaborators :: "string collaborators" where
  "sample_collaborators =
     \<lparr> cell_capacity = 1023,
       Contract_init = (\<lambda>kwargs. Inr kwargs),
       Address = (\<lambda>v. case v of
                    PyStr s \<Rightarrow> if s = [] then Inl ''Invalid address'' else Inr s
                  | _ \<Rightarrow> Inl ''Invalid address''),
       bytes_hash = (\<lambda>c. Inr [of_nat (length (bits c)), of_nat (length (refs c))]),
       sign_message = (\<lambda>h k. case k of
                    PyBytes kb \<Rightarrow> Inr (take 64 (h @ kb @ replicate 64 0))
                  | _ \<Rightarrow> Inl ''Invalid key''),
       create_internal_message_header = (\<lambda>dest amnt. case amnt of
                    PyInt n \<Rightarrow> Inr (Cell [n < 0] [])
                  | _ \<Rightarrow> Inl ''Invalid amount''),
       create_external_message_header = (\<lambda>dest. Inr (Cell [] [])),
       create_common_msg_info = (\<lambda>header st body.
                    Inr (Cell (bits header) ((case st of PyCell c \<Rightarrow> [c] | _ \<Rightarrow> []) @ [body]))),
       create_state_init = (\<lambda>self. case map_of (options self) ''public_key'' of
                    Some (PyBytes pk) \<Rightarrow>
                      Inr \<lparr> deploy_state_init = Cell [True] [],
                            deploy_code = Cell [False] [],
                            deploy_data = Cell (bytes_bits pk) [],
                            deploy_address = ''0:derived'' \<rparr>
                  | _ \<Rightarrow> Inl ''No public key''),
       self_address = (\<lambda>self. case map_of (options self) ''address'' of
                    Some (PyStr s) \<Rightarrow> Inr s
                  | _ \<Rightarrow> Inr ''0:derived'') \<rparr>"

definition sample_wallet :: WalletContract where
  "sample_wallet =
     \<lparr> options = [(''public_key'', PyBytes [1, 2]), (''private_key'', PyBytes [3, 4])] \<rparr>"

text \<open>A wallet that can be constructed (it has an address) and holds no private key.\<close>

definition keyless_wallet :: WalletContract where
  "keyless_wallet =
     \<lparr> options = [(''public_key'', PyBytes [1, 2]), (''address'', PyStr ''EQ-W'')] \<rparr>"

definition sample_message :: WalletMessage where
  "sample_message =
     \<lparr> address = PyStr ''EQ-A'', amount = PyInt 1000000000, send_mode = PyInt 3,
       payload = PyNone, state_init = PyNone \<rparr>"

text \<open>
  Hashes and keys of the sizes the sample collaborators are run with, and two wallets
  whose private keys have such a size.
\<close>

definition sample_signing_domain :: "(byte list \<times> pyval) set" where
  "sample_signing_domain = {(h, PyBytes k) | h k. length h = 2 \<and> length k = 32}"

definition first_wallet :: WalletContract where
  "first_wallet =
     \<lparr> options = [(''public_key'', PyBytes [1, 2]), (''private_key'', PyBytes (replicate 32 1))] \<rparr>"

definition second_wallet :: WalletContract where
  "second_wallet =
     \<lparr> options = [(''public_key'', PyBytes [1, 2]), (''private_key'', PyBytes (replicate 32 2))] \<rparr>"

section \<open>Basic facts\<close>

lemma and_then_Inr: "(and_then m f = Inr y) = (\<exists>x. m = Inr x \<and> f x = Inr y)"
  by (cases m) (simp_all add: and_then_def)

lemma and_then_Inl: "(and_then m f = Inl e) = (m = Inl e \<or> (\<exists>x. m = Inr x \<and> f x = Inl e))"
  by (cases m) (simp_all add: and_then_def)

lemma collaborator_Inr: "(collaborator r = Inr x) = (r = Inr x)"
  by (cases r) (simp_all add: collaborator_def)

lemma collaborator_Inl:
  "(collaborator r = Inl e) = (\<exists>msg. r = Inl msg \<and> e = CollaboratorError msg)"
  by (cases r) (auto simp add: collaborator_def)

lemma default_send_mode_value: "default_send_mode = PyInt 3"
  by (simp add: default_send_mode_def ignore_errors_def pay_gas_separately_def)

lemma length_uint_bits: "length (uint_bits n v) = n"
  by (induction n arbitrary: v) simp_all

lemma uint_bits_zero: "uint_bits n 0 = replicate n False"
  by (induction n) (simp_all add: replicate_append_same)

lemma length_byte_bits: "length (byte_bits b) = 8"
  by (simp add: byte_bits_def length_uint_bits)

lemma length_bytes_bits: "length (bytes_bits bs) = 8 * length bs"
  by (induction bs) (simp_all add: bytes_bits_def length_byte_bits)

lemma length_utf8: "length (utf8 s) = length s"
  by (simp add: utf8_def)

subsection \<open>When the engine and the builders return\<close>

lemma write_bits_Inr:
  "(write_bits cap c bs = Inr c') =
     (length (bits c) + length bs \<le> cap \<and> c' = Cell (bits c @ bs) (refs c))"
  by (auto simp: write_bits_def)

lemma write_uint_Inr:
  "(write_uint cap c v n = Inr c') =
     (0 \<le> v \<and> v < 2 ^ n \<and> length (bits c) + n \<le> cap \<and>
      c' = Cell (bits c @ uint_bits n v) (refs c))"
  by (auto simp: write_uint_def write_bits_Inr length_uint_bits)

lemma write_uint8_Inr:
  "(write_uint8 cap c v = Inr c') =
     (\<exists>n. v = PyInt n \<and> 0 \<le> n \<and> n < 256 \<and> length (bits c) + 8 \<le> cap \<and>
          c' = Cell (bits c @ uint_bits 8 n) (refs c))"
  by (cases v) (auto simp: write_uint8_def write_uint_Inr)

lemma write_bytes_Inr:
  "(write_bytes cap c v = Inr c') =
     (\<exists>bs. v = PyBytes bs \<and> length (bits c) + 8 * length bs \<le> cap \<and>
           c' = Cell (bits c @ bytes_bits bs) (refs c))"
  by (cases v) (auto simp: write_bytes_def write_bits_Inr length_bytes_bits)

lemma write_cell_Inr:
  "(write_cell cap c a = Inr c') =
     (length (bits c) + length (bits a) \<le> cap \<and>
      c' = Cell (bits c @ bits a) (refs c @ refs a))"
  by (auto simp: write_cell_def and_then_Inr write_bits_Inr)

lemma create_signing_message_Inr:
  "(create_signing_message C seqno = Inr sm) =
     (let n = (case seqno of None \<Rightarrow> 0 | Some n \<Rightarrow> n) in
      0 \<le> n \<and> n < 2 ^ 32 \<and> 32 \<le> cell_capacity C \<and> sm = Cell (uint_bits 32 n) [])"
  by (cases seqno) (auto simp: create_signing_message_def Let_def write_uint_Inr)

lemma add_recipient_Inr:
  "(add_recipient C sm r = Inr sm') =
     (\<exists>m order n. recipient_message r = Inr m \<and> order_cell C m = Inr order \<and>
        send_mode m = PyInt n \<and> 0 \<le> n \<and> n < 256 \<and>
        length (bits sm) + 8 \<le> cell_capacity C \<and>
        sm' = Cell (bits sm @ uint_bits 8 n) (refs sm @ [order]))"
  by (auto simp: add_recipient_def and_then_Inr write_uint8_Inr)

text \<open>
  The invariant of the loop: each item appends one byte, its send mode, to the bits of
  the signing message and one cell, its order, to the references.
\<close>

lemma add_recipients_Inr:
  "add_recipients C sm rs = Inr sm' \<Longrightarrow>
     \<exists>ms orders ns.
        map recipient_message rs = map Inr ms \<and>
        map (order_cell C) ms = map Inr orders \<and>
        map send_mode ms = map PyInt ns \<and>
        (\<forall>n \<in> set ns. 0 \<le> n \<and> n < 256) \<and>
        bits sm' = bits sm @ concat (map (uint_bits 8) ns) \<and>
        refs sm' = refs sm @ orders"
proof (induction rs arbitrary: sm)
  case Nil
  then show ?case by simp
next
  case (Cons r rs)
  from Cons.prems obtain sm1 where
    step: "add_recipient C sm r = Inr sm1" and rest: "add_recipients C sm1 rs = Inr sm'"
    by (auto simp: and_then_Inr)
  from step obtain m order n where
    m: "recipient_message r = Inr m" "order_cell C m = Inr order" "send_mode m = PyInt n"
       "0 \<le> n" "n < 256" and
    sm1: "sm1 = Cell (bits sm @ uint_bits 8 n) (refs sm @ [order])"
    by (auto simp: add_recipient_Inr)
  from Cons.IH [OF rest] obtain ms orders ns where
    ih: "map recipient_message rs = map Inr ms"
        "map (order_cell C) ms = map Inr orders"
        "map send_mode ms = map PyInt ns"
        "\<forall>n \<in> set ns. 0 \<le> n \<and> n < 256"
        "bits sm' = bits sm1 @ concat (map (uint_bits 8) ns)"
        "refs sm' = refs sm1 @ orders"
    by blast
  show ?case
    apply (rule exI [of _ "m # ms"], rule exI [of _ "order # orders"], rule exI [of _ "n # ns"])
    using m ih sm1 by simp
qed

lemma nth_send_mode_byte:
  "i < length ns \<Longrightarrow>
     take 8 (drop (8 * i) (concat (map (uint_bits 8) ns))) = uint_bits 8 (ns ! i)"
proof (induction ns arbitrary: i)
  case Nil
  then show ?case by simp
next
  case (Cons n ns)
  show ?case
  proof (cases i)
    case 0
    then show ?thesis by (simp add: length_uint_bits)
  next
    case (Suc j)
    with Cons.prems have "j < length ns" by simp
    from Cons.IH [OF this] Suc show ?thesis
      by (simp add: length_uint_bits)
  qed
qed

lemma create_external_message_Inr:
  assumes "create_external_message C self sm seqno dummy = Inr e"
  shows "ext_signing_message e = sm \<and>
     (if dummy then Inr (replicate 64 0) else real_signature C self sm)
        = Inr (ext_signature e) \<and>
     (\<exists>body0. write_bytes (cell_capacity C) (Cell [] []) (PyBytes (ext_signature e))
                 = Inr body0 \<and>
        write_cell (cell_capacity C) body0 sm = Inr (ext_body e)) \<and>
     (if seqno = Some 0
      then \<exists>d. create_state_init C self = Inr d \<and>
             ext_state_init e = PyCell (deploy_state_init d) \<and>
             ext_code e = PyCell (deploy_code d) \<and>
             ext_data e = PyCell (deploy_data d)
      else ext_state_init e = PyNone \<and> ext_code e = PyNone \<and> ext_data e = PyNone) \<and>
     self_address C self = Inr (ext_address e) \<and>
     (\<exists>header. create_external_message_header C (ext_address e) = Inr header \<and>
        create_common_msg_info C header (ext_state_init e) (ext_body e)
          = Inr (ext_message e))"
  using assms unfolding create_external_message_def
  by (auto simp: and_then_Inr collaborator_Inr split: if_splits)

lemma create_transfer_message_Inr:
  assumes "create_transfer_message C self to_addr amnt seqno pl mode dummy st rl = Inr e"
  shows "length (normalized to_addr amnt pl mode st rl) \<le> 4 \<and>
     (\<exists>sm0. create_signing_message C seqno = Inr sm0 \<and>
        add_recipients C sm0 (normalized to_addr amnt pl mode st rl)
          = Inr (ext_signing_message e)) \<and>
     create_external_message C self (ext_signing_message e) seqno dummy = Inr e"
proof -
  from assms obtain sm0 sm where
    *: "length (normalized to_addr amnt pl mode st rl) \<le> 4"
       "create_signing_message C seqno = Inr sm0"
       "add_recipients C sm0 (normalized to_addr amnt pl mode st rl) = Inr sm"
       "create_external_message C self sm seqno dummy = Inr e"
    by (auto simp: create_transfer_message_def Let_def and_then_Inr split: if_splits)
  from create_external_message_Inr [OF *(4)] have "ext_signing_message e = sm" by simp
  with * show ?thesis by simp
qed

text \<open>
  When each item of the loop is acceptable and the bits fit, the loop returns; when a
  signature of 64 bytes is at hand and the collaborators return, so does
  \<open>create_external_message\<close>.
\<close>

lemma add_recipients_returns:
  assumes "\<forall>r \<in> set rs. \<exists>m order n. recipient_message r = Inr m \<and>
              order_cell C m = Inr order \<and> send_mode m = PyInt n \<and> 0 \<le> n \<and> n < 256"
    and "length (bits sm) + 8 * length rs \<le> cell_capacity C"
  shows "\<exists>sm'. add_recipients C sm rs = Inr sm' \<and>
           length (bits sm') = length (bits sm) + 8 * length rs"
  using assms
proof (induction rs arbitrary: sm)
  case Nil
  then show ?case by simp
next
  case (Cons r rs)
  from Cons.prems(1) obtain m order n where
    r: "recipient_message r = Inr m" "order_cell C m = Inr order" "send_mode m = PyInt n"
       "0 \<le> n" "n < 256"
    by auto
  let ?sm1 = "Cell (bits sm @ uint_bits 8 n) (refs sm @ [order])"
  from r Cons.prems(2) have step: "add_recipient C sm r = Inr ?sm1"
    by (simp add: add_recipient_Inr)
  have "\<exists>sm'. add_recipients C ?sm1 rs = Inr sm' \<and>
           length (bits sm') = length (bits ?sm1) + 8 * length rs"
  proof (rule Cons.IH)
    show "\<forall>r \<in> set rs. \<exists>m order n. recipient_message r = Inr m \<and>
              order_cell C m = Inr order \<and> send_mode m = PyInt n \<and> 0 \<le> n \<and> n < 256"
      using Cons.prems(1) by simp
    show "length (bits ?sm1) + 8 * length rs \<le> cell_capacity C"
      using Cons.prems(2) by (simp add: length_uint_bits)
  qed
  then obtain sm' where "add_recipients C ?sm1 rs = Inr sm'"
    "length (bits sm') = length (bits ?sm1) + 8 * length rs"
    by blast
  with step show ?case
    by (simp add: and_then_def length_uint_bits)
qed

lemma create_external_message_returns:
  assumes sig: "dummy \<or> (\<exists>s. real_signature C self sm = Inr s \<and> length s = 64)"
    and cap: "512 + length (bits sm) \<le> cell_capacity C"
    and deploy: "seqno = Some 0 \<longrightarrow> (\<exists>d. create_state_init C self = Inr d)"
    and addr: "self_address C self = Inr a"
    and header: "create_external_message_header C a = Inr h"
    and info: "\<forall>st body. \<exists>msg. create_common_msg_info C h st body = Inr msg"
  shows "\<exists>e. create_external_message C self sm seqno dummy = Inr e"
proof -
  from sig obtain s where
    s: "(if dummy then Inr (replicate 64 0) else real_signature C self sm) = Inr s"
    and len: "length s = 64"
    by (cases dummy) auto
  let ?sig_cell = "Cell (bytes_bits s) []"
  let ?full_body = "Cell (bytes_bits s @ bits sm) (refs sm)"
  from len cap have b0: "write_bytes (cell_capacity C) (Cell [] []) (PyBytes s) = Inr ?sig_cell"
    by (simp add: write_bytes_Inr)
  from len cap have b: "write_cell (cell_capacity C) ?sig_cell sm = Inr ?full_body"
    by (simp add: write_cell_Inr length_bytes_bits)
  obtain st code dat where
    d: "(if seqno = Some 0
         then and_then (collaborator (create_state_init C self))
                (\<lambda>deploy. Inr (PyCell (deploy_state_init deploy),
                               PyCell (deploy_code deploy),
                               PyCell (deploy_data deploy)))
         else Inr (PyNone, PyNone, PyNone)) = Inr (st, code, dat)"
    using deploy by (cases "seqno = Some 0") (auto simp: and_then_def collaborator_def)
  from info obtain msg where msg: "create_common_msg_info C h st ?full_body = Inr msg"
    by blast
  show ?thesis
    unfolding create_external_message_def
    by (simp add: s b0 b d addr header msg and_then_def collaborator_def)
qed

subsection \<open>Which errors the builders raise\<close>

lemma write_bits_Inl: "write_bits cap c bs = Inl err \<Longrightarrow> err = CellError"
  by (auto simp: write_bits_def split: if_splits)

lemma write_uint_Inl: "write_uint cap c v n = Inl err \<Longrightarrow> err = CellError"
  by (auto simp: write_uint_def split: if_splits dest: write_bits_Inl)

lemma write_uint8_Inl:
  "write_uint8 cap c v = Inl err \<Longrightarrow> err = CellError \<or> err = TypeError"
  by (cases v) (auto simp: write_uint8_def dest: write_uint_Inl)

lemma write_bytes_Inl:
  "write_bytes cap c v = Inl err \<Longrightarrow> err = CellError \<or> err = TypeError"
  by (cases v) (auto simp: write_bytes_def dest: write_bits_Inl)

lemma write_cell_Inl: "write_cell cap c a = Inl err \<Longrightarrow> err = CellError"
  by (auto simp: write_cell_def and_then_Inl dest: write_bits_Inl)

lemma create_signing_message_Inl:
  "create_signing_message C seqno = Inl err \<Longrightarrow> err = CellError"
  by (auto simp: create_signing_message_def Let_def dest: write_uint_Inl)

lemma payload_cell_Inl:
  "payload_cell cap pl = Inl err \<Longrightarrow> err = CellError \<or> err = TypeError"
  by (cases pl)
    (auto simp: payload_cell_def write_string_def and_then_Inl split: if_splits
      dest: write_uint_Inl write_bytes_Inl)

lemma order_cell_Inl:
  "order_cell C m = Inl err \<Longrightarrow>
     err = CellError \<or> err = TypeError \<or> (\<exists>msg. err = CollaboratorError msg)"
  by (auto simp: order_cell_def and_then_Inl collaborator_Inl dest: payload_cell_Inl)

lemma add_recipient_Inl:
  "add_recipient C sm r = Inl err \<Longrightarrow>
     err = CellError \<or> err = TypeError \<or> err = AttributeError ''payload'' \<or>
     (\<exists>msg. err = CollaboratorError msg)"
  by (cases r)
    (auto simp: add_recipient_def recipient_message_def and_then_Inl
      dest: order_cell_Inl write_uint8_Inl)

lemma add_recipients_Inl:
  "add_recipients C sm rs = Inl err \<Longrightarrow>
     err = CellError \<or> err = TypeError \<or> err = AttributeError ''payload'' \<or>
     (\<exists>msg. err = CollaboratorError msg)"
proof (induction rs arbitrary: sm)
  case Nil
  then show ?case by simp
next
  case (Cons r rs)
  then show ?case
    by (auto simp: and_then_Inl dest: add_recipient_Inl)
qed

lemma real_signature_Inl:
  "real_signature C self sm = Inl err \<Longrightarrow>
     err = KeyError ''private_key'' \<or> (\<exists>msg. err = CollaboratorError msg)"
  by (auto simp: real_signature_def and_then_Inl collaborator_Inl split: option.splits)

lemma create_external_message_Inl:
  "create_external_message C self sm seqno dummy = Inl err \<Longrightarrow>
     err = CellError \<or> err = TypeError \<or> (\<not> dummy \<and> err = KeyError ''private_key'') \<or>
     (\<exists>msg. err = CollaboratorError msg)"
  unfolding create_external_message_def
  by (auto simp: and_then_Inl collaborator_Inl split: if_splits
      dest: real_signature_Inl write_bytes_Inl write_cell_Inl)

subsection \<open>Running the definitions on the sample collaborators\<close>

lemmas run_defs =
  create_transfer_message_def normalized_def create_signing_message_def
  create_external_message_def create_init_external_message_def real_signature_def
  add_recipient_def order_cell_def recipient_message_def payload_cell_def
  write_uint_def write_uint8_def write_bytes_def write_string_def write_cell_def
  write_bits_def and_then_def collaborator_def
  sample_collaborators_def sample_wallet_def keyless_wallet_def sample_message_def
  length_uint_bits length_bytes_bits length_utf8 Let_def

lemma sample_separates: "separates sample_collaborators sample_signing_domain"
proof -
  have "h = h' \<and> k = k'"
    if "length h = 2" "length k = 32" "length h' = 2" "length k' = 32"
      "take 64 (h @ k @ replicate 64 0) = take 64 (h' @ k' @ replicate 64 (0 :: byte))"
    for h k h' k' :: "byte list"
  proof -
    from that have "h @ k @ replicate 30 0 = h' @ k' @ replicate 30 0"
      by simp
    with that show ?thesis by simp
  qed
  then show ?thesis
    by (auto simp: separates_def sample_signing_domain_def sample_collaborators_def)
qed

section \<open>Wallet messages and dicts\<close>

text \<open>
  C6. A wallet message written to a dict by \<open>to_dict\<close> and read back by \<open>from_dict\<close>
  is the message itself. For a dict without the key \<^verbatim>\<open>send_mode\<close>, \<open>from_dict\<close> fills in
  \<^verbatim>\<open>ignore_errors | pay_gas_separately\<close>; without \<^verbatim>\<open>payload\<close> or \<^verbatim>\<open>state_init\<close>, it
  fills in \<^verbatim>\<open>None\<close>.
\<close>

theorem to_dict_from_dict:
  "from_dict (to_dict m) = m \<and>
   (\<not> dict_contains d ''send_mode'' \<longrightarrow>
      send_mode (from_dict d) = PyInt (ignore_errors OR pay_gas_separately)) \<and>
   (\<not> dict_contains d ''payload'' \<longrightarrow> payload (from_dict d) = PyNone) \<and>
   (\<not> dict_contains d ''state_init'' \<longrightarrow> state_init (from_dict d) = PyNone)"
proof -
  have "from_dict (to_dict m) = m"
    by (cases m) (simp add: to_dict_def from_dict_def dict_get_def Let_def)
  then show ?thesis
    by (simp add: from_dict_def dict_get_def dict_contains_def default_send_mode_def)
qed

theorem to_dict_from_dict_witness:
  "from_dict (to_dict \<lparr> address = PyStr ''EQ-A'', amount = PyInt 1000000000,
                        send_mode = PyInt 128, payload = PyStr ''hello'',
                        state_init = PyNone \<rparr>)
     = \<lparr> address = PyStr ''EQ-A'', amount = PyInt 1000000000,
         send_mode = PyInt 128, payload = PyStr ''hello'', state_init = PyNone \<rparr> \<and>
   from_dict [(''address'', PyStr ''EQ-A''), (''amount'', PyInt 5)]
     = \<lparr> address = PyStr ''EQ-A'', amount = PyInt 5,
         send_mode = PyInt 3, payload = PyNone, state_init = PyNone \<rparr>"
  using to_dict_from_dict
    [of "\<lparr> address = PyStr ''EQ-A'', amount = PyInt 1000000000,
           send_mode = PyInt 128, payload = PyStr ''hello'', state_init = PyNone \<rparr>"
        "[(''address'', PyStr ''EQ-A''), (''amount'', PyInt 5)]"]
  by (simp add: from_dict_def dict_get_def dict_contains_def ignore_errors_def
      pay_gas_separately_def)

section \<open>Construction of the wallet\<close>

text \<open>
  C7. \<^verbatim>\<open>WalletContract.__init__\<close> raises its own exception exactly when the options
  hold neither both of \<^verbatim>\<open>public_key\<close> and \<^verbatim>\<open>private_key\<close>, nor \<^verbatim>\<open>address\<close>, nor
  \<^verbatim>\<open>public_keys\<close>. When one of the three is there, whatever construction does, it does
  not raise this exception.
\<close>

theorem WalletContract_init_raises_iff:
  "(WalletContract_init C kwargs = Inl ConfigurationError) =
     (\<not> ((dict_contains kwargs ''public_key'' \<and> dict_contains kwargs ''private_key'')
          \<or> dict_contains kwargs ''address''
          \<or> dict_contains kwargs ''public_keys''))"
  by (auto simp: WalletContract_init_def and_then_Inl collaborator_Inl)

theorem WalletContract_init_raises_iff_witness:
  "WalletContract_init sample_collaborators [(''public_key'', PyBytes [1, 2])]
     = Inl ConfigurationError \<and>
   WalletContract_init sample_collaborators
       [(''public_key'', PyBytes [1, 2]), (''private_key'', PyBytes [3, 4])]
     \<noteq> Inl ConfigurationError \<and>
   WalletContract_init sample_collaborators [(''address'', PyStr ''EQ-A'')]
     \<noteq> Inl ConfigurationError \<and>
   WalletContract_init sample_collaborators [(''public_keys'', PyBytes [1, 2])]
     \<noteq> Inl ConfigurationError"
  using
    WalletContract_init_raises_iff [of sample_collaborators "[(''public_key'', PyBytes [1, 2])]"]
    WalletContract_init_raises_iff [of sample_collaborators
       "[(''public_key'', PyBytes [1, 2]), (''private_key'', PyBytes [3, 4])]"]
    WalletContract_init_raises_iff [of sample_collaborators "[(''address'', PyStr ''EQ-A'')]"]
    WalletContract_init_raises_iff [of sample_collaborators "[(''public_keys'', PyBytes [1, 2])]"]
  by (simp add: dict_contains_def)

section \<open>Deployment data of a transfer message\<close>

text \<open>
  C1. An envelope returned by \<open>create_transfer_message\<close> holds deployment data
  (\<^verbatim>\<open>state_init\<close>, \<^verbatim>\<open>code\<close> and \<^verbatim>\<open>data\<close> that are not \<^verbatim>\<open>None\<close>) if and only if the
  argument \<^verbatim>\<open>seqno\<close> is 0; for any other \<^verbatim>\<open>seqno\<close>, in particular a positive one, the
  three fields are \<^verbatim>\<open>None\<close>.
\<close>

theorem deployment_data_iff_seqno_zero:
  assumes "create_transfer_message C self to_addr amnt seqno pl mode dummy st rl = Inr e"
  shows "((ext_state_init e \<noteq> PyNone \<and> ext_code e \<noteq> PyNone \<and> ext_data e \<noteq> PyNone)
            = (seqno = Some 0)) \<and>
         (seqno \<noteq> Some 0 \<longrightarrow>
            ext_state_init e = PyNone \<and> ext_code e = PyNone \<and> ext_data e = PyNone)"
proof -
  from create_transfer_message_Inr [OF assms]
  have "create_external_message C self (ext_signing_message e) seqno dummy = Inr e" by simp
  from create_external_message_Inr [OF this] show ?thesis
    by (auto split: if_splits)
qed

theorem deployment_data_iff_seqno_zero_witness:
  "(\<exists>e. create_transfer_message sample_collaborators sample_wallet PyNone PyNone (Some 0)
          PyNone (PyInt 3) False PyNone (RecipientList [Message sample_message]) = Inr e \<and>
        ext_state_init e \<noteq> PyNone \<and> ext_code e \<noteq> PyNone \<and> ext_data e \<noteq> PyNone) \<and>
   (\<exists>e. create_transfer_message sample_collaborators sample_wallet PyNone PyNone (Some 5)
          PyNone (PyInt 3) False PyNone (RecipientList [Message sample_message]) = Inr e \<and>
        ext_state_init e = PyNone \<and> ext_code e = PyNone \<and> ext_data e = PyNone)"
proof -
  obtain e0 where e0: "create_transfer_message sample_collaborators sample_wallet PyNone
      PyNone (Some 0) PyNone (PyInt 3) False PyNone (RecipientList [Message sample_message])
      = Inr e0"
    by (simp add: run_defs)
  obtain e5 where e5: "create_transfer_message sample_collaborators sample_wallet PyNone
      PyNone (Some 5) PyNone (PyInt 3) False PyNone (RecipientList [Message sample_message])
      = Inr e5"
    by (simp add: run_defs)
  from deployment_data_iff_seqno_zero [OF e0] deployment_data_iff_seqno_zero [OF e5] e0 e5
  show ?thesis by simp
qed

text \<open>
  C10. When \<^verbatim>\<open>seqno\<close> is \<^verbatim>\<open>None\<close>, the signing message starts with the 32-bit replay
  counter 0, as it does for \<^verbatim>\<open>seqno = 0\<close>, and yet the envelope returned holds no
  deployment data: the test \<^verbatim>\<open>seqno == 0\<close> reads the argument as it was passed.
\<close>

theorem absent_seqno:
  assumes "create_transfer_message C self to_addr amnt None pl mode dummy st rl = Inr e"
  shows "take 32 (bits (ext_signing_message e)) = replicate 32 False \<and>
         create_signing_message C None = create_signing_message C (Some 0) \<and>
         ext_state_init e = PyNone \<and> ext_code e = PyNone \<and> ext_data e = PyNone"
proof -
  from create_transfer_message_Inr [OF assms] obtain sm0 where
    sm0: "create_signing_message C None = Inr sm0" and
    loop: "add_recipients C sm0 (normalized to_addr amnt pl mode st rl)
             = Inr (ext_signing_message e)" and
    ext: "create_external_message C self (ext_signing_message e) None dummy = Inr e"
    by blast
  from sm0 have "sm0 = Cell (replicate 32 False) []"
    by (simp add: create_signing_message_Inr uint_bits_zero)
  moreover from add_recipients_Inr [OF loop] obtain ns where
    "bits (ext_signing_message e) = bits sm0 @ concat (map (uint_bits 8) ns)"
    by blast
  ultimately have "take 32 (bits (ext_signing_message e)) = replicate 32 False"
    by simp
  moreover have "create_signing_message C None = create_signing_message C (Some 0)"
    by (simp add: create_signing_message_def)
  moreover from create_external_message_Inr [OF ext]
  have "ext_state_init e = PyNone \<and> ext_code e = PyNone \<and> ext_data e = PyNone"
    by simp
  ultimately show ?thesis by simp
qed

theorem absent_seqno_witness:
  "\<exists>e. create_transfer_message sample_collaborators sample_wallet PyNone PyNone None
          PyNone (PyInt 3) False PyNone (RecipientList [Message sample_message]) = Inr e \<and>
        take 32 (bits (ext_signing_message e)) = replicate 32 False \<and>
        ext_state_init e = PyNone \<and> ext_code e = PyNone \<and> ext_data e = PyNone"
proof -
  obtain e where e: "create_transfer_message sample_collaborators sample_wallet PyNone
      PyNone None PyNone (PyInt 3) False PyNone (RecipientList [Message sample_message])
      = Inr e"
    by (simp add: run_defs)
  from absent_seqno [OF e] e show ?thesis by blast
qed

section \<open>The branches of the signing message\<close>

text \<open>
  C5. When \<open>create_transfer_message\<close> returns for a list of recipients (which then has at
  most 4 items), the signing message has one reference per item, in the order of the
  list, whatever that order is: the \<open>i\<close>-th reference is the order cell of the \<open>i\<close>-th
  item, and the \<open>i\<close>-th byte after the 32-bit counter is its send mode.
\<close>

theorem branches_in_input_order:
  assumes "create_transfer_message C self to_addr amnt seqno pl mode dummy st
             (RecipientList rs) = Inr e"
  shows "length rs \<le> 4 \<and>
         length (refs (ext_signing_message e)) = length rs \<and>
         length (bits (ext_signing_message e)) = 32 + 8 * length rs \<and>
         (\<forall>i < length rs. \<exists>m n.
            recipient_message (rs ! i) = Inr m \<and>
            order_cell C m = Inr (refs (ext_signing_message e) ! i) \<and>
            send_mode m = PyInt n \<and>
            take 8 (drop (32 + 8 * i) (bits (ext_signing_message e))) = uint_bits 8 n)"
proof -
  let ?sm = "ext_signing_message e"
  from create_transfer_message_Inr [OF assms] obtain sm0 where
    len: "length rs \<le> 4" and sm0: "create_signing_message C seqno = Inr sm0" and
    loop: "add_recipients C sm0 rs = Inr ?sm"
    by (auto simp: normalized_def)
  from sm0 obtain k where sm0_eq: "sm0 = Cell (uint_bits 32 k) []"
    by (auto simp: create_signing_message_Inr Let_def)
  from add_recipients_Inr [OF loop] obtain ms orders ns where
    ms: "map recipient_message rs = map Inr ms" and
    orders: "map (order_cell C) ms = map Inr orders" and
    ns: "map send_mode ms = map PyInt ns" and
    bits_eq: "bits ?sm = bits sm0 @ concat (map (uint_bits 8) ns)" and
    refs_eq: "refs ?sm = refs sm0 @ orders"
    by blast
  from ms have l1: "length ms = length rs" by (metis length_map)
  from orders have l2: "length orders = length ms" by (metis length_map)
  from ns have l3: "length ns = length ms" by (metis length_map)
  have bits_sm: "bits ?sm = uint_bits 32 k @ concat (map (uint_bits 8) ns)"
    using bits_eq sm0_eq by simp
  have refs_sm: "refs ?sm = orders"
    using refs_eq sm0_eq by simp
  have len_concat: "length (concat (map (uint_bits 8) xs)) = 8 * length xs" for xs
    by (induction xs) (simp_all add: length_uint_bits)
  have branch: "\<exists>m n. recipient_message (rs ! i) = Inr m \<and>
            order_cell C m = Inr (refs ?sm ! i) \<and> send_mode m = PyInt n \<and>
            take 8 (drop (32 + 8 * i) (bits ?sm)) = uint_bits 8 n"
    if i: "i < length rs" for i
  proof -
    from i l1 l2 l3 have i': "i < length ms" "i < length orders" "i < length ns"
      by simp_all
    from ms i i' have a: "recipient_message (rs ! i) = Inr (ms ! i)"
      by (metis nth_map)
    from orders i' have b: "order_cell C (ms ! i) = Inr (orders ! i)"
      by (metis nth_map)
    from ns i' have c: "send_mode (ms ! i) = PyInt (ns ! i)"
      by (metis nth_map)
    have d: "take 8 (drop (32 + 8 * i) (bits ?sm)) = uint_bits 8 (ns ! i)"
      using nth_send_mode_byte [OF i'(3)]
      by (simp add: bits_sm length_uint_bits drop_drop [symmetric] del: drop_drop)
    from a b c d refs_sm show ?thesis by auto
  qed
  show ?thesis
    using len l1 l2 l3 branch by (simp add: bits_sm refs_sm length_uint_bits len_concat)
qed

theorem branches_in_input_order_witness:
  "(\<exists>e. create_transfer_message sample_collaborators sample_wallet PyNone PyNone (Some 7)
          PyNone (PyInt 3) True PyNone
          (RecipientList [Message sample_message,
                          Message (sample_message \<lparr> send_mode := PyInt 128,
                                                    payload := PyStr ''hi'' \<rparr>)]) = Inr e \<and>
        length (refs (ext_signing_message e)) = 2 \<and>
        order_cell sample_collaborators sample_message
          = Inr (refs (ext_signing_message e) ! 0) \<and>
        order_cell sample_collaborators
            (sample_message \<lparr> send_mode := PyInt 128, payload := PyStr ''hi'' \<rparr>)
          = Inr (refs (ext_signing_message e) ! 1) \<and>
        take 8 (drop 32 (bits (ext_signing_message e))) = uint_bits 8 3 \<and>
        take 8 (drop 40 (bits (ext_signing_message e))) = uint_bits 8 128) \<and>
   (\<exists>e. create_transfer_message sample_collaborators sample_wallet PyNone PyNone (Some 7)
          PyNone (PyInt 3) True PyNone
          (RecipientList [Message (sample_message \<lparr> send_mode := PyInt 128,
                                                    payload := PyStr ''hi'' \<rparr>),
                          Message sample_message]) = Inr e \<and>
        length (refs (ext_signing_message e)) = 2 \<and>
        order_cell sample_collaborators
            (sample_message \<lparr> send_mode := PyInt 128, payload := PyStr ''hi'' \<rparr>)
          = Inr (refs (ext_signing_message e) ! 0) \<and>
        order_cell sample_collaborators sample_message
          = Inr (refs (ext_signing_message e) ! 1) \<and>
        take 8 (drop 32 (bits (ext_signing_message e))) = uint_bits 8 128 \<and>
        take 8 (drop 40 (bits (ext_signing_message e))) = uint_bits 8 3)"
proof -
  let ?a = "sample_message"
  let ?b = "sample_message \<lparr> send_mode := PyInt 128, payload := PyStr ''hi'' \<rparr>"
  obtain e1 where e1: "create_transfer_message sample_collaborators sample_wallet PyNone
      PyNone (Some 7) PyNone (PyInt 3) True PyNone (RecipientList [Message ?a, Message ?b])
      = Inr e1"
    by (simp add: run_defs)
  obtain e2 where e2: "create_transfer_message sample_collaborators sample_wallet PyNone
      PyNone (Some 7) PyNone (PyInt 3) True PyNone (RecipientList [Message ?b, Message ?a])
      = Inr e2"
    by (simp add: run_defs)
  have sa: "send_mode ?a = PyInt 3" and sb: "send_mode ?b = PyInt 128"
    by (simp_all add: sample_message_def)
  from branches_in_input_order [OF e1]
  have len1: "length (refs (ext_signing_message e1)) = 2" and
    all1: "\<forall>i < 2. \<exists>m n. recipient_message ([Message ?a, Message ?b] ! i) = Inr m \<and>
            order_cell sample_collaborators m = Inr (refs (ext_signing_message e1) ! i) \<and>
            send_mode m = PyInt n \<and>
            take 8 (drop (32 + 8 * i) (bits (ext_signing_message e1))) = uint_bits 8 n"
    by simp_all
  from all1 [rule_format, of 0] all1 [rule_format, of 1] sa sb
  have r1: "order_cell sample_collaborators ?a = Inr (refs (ext_signing_message e1) ! 0) \<and>
      order_cell sample_collaborators ?b = Inr (refs (ext_signing_message e1) ! 1) \<and>
      take 8 (drop 32 (bits (ext_signing_message e1))) = uint_bits 8 3 \<and>
      take 8 (drop 40 (bits (ext_signing_message e1))) = uint_bits 8 128"
    by (auto simp: recipient_message_def)
  from branches_in_input_order [OF e2]
  have len2: "length (refs (ext_signing_message e2)) = 2" and
    all2: "\<forall>i < 2. \<exists>m n. recipient_message ([Message ?b, Message ?a] ! i) = Inr m \<and>
            order_cell sample_collaborators m = Inr (refs (ext_signing_message e2) ! i) \<and>
            send_mode m = PyInt n \<and>
            take 8 (drop (32 + 8 * i) (bits (ext_signing_message e2))) = uint_bits 8 n"
    by simp_all
  from all2 [rule_format, of 0] all2 [rule_format, of 1] sa sb
  have r2: "order_cell sample_collaborators ?b = Inr (refs (ext_signing_message e2) ! 0) \<and>
      order_cell sample_collaborators ?a = Inr (refs (ext_signing_message e2) ! 1) \<and>
      take 8 (drop 32 (bits (ext_signing_message e2))) = uint_bits 8 128 \<and>
      take 8 (drop 40 (bits (ext_signing_message e2))) = uint_bits 8 3"
    by (auto simp: recipient_message_def)
  from e1 len1 r1 e2 len2 r2 show ?thesis by blast
qed

section \<open>The limit on the number of recipients\<close>

text \<open>
  A list of at most four recipients does not make the call return by its length alone.
  In the first run the one recipient has a send mode that does not fit a byte; in the
  second the list is empty, the wallet holds no private key and a real signature is
  asked for.
\<close>

theorem too_many_recipients_counterexample:
  "create_transfer_message sample_collaborators sample_wallet PyNone PyNone (Some 7) PyNone
     (PyInt 3) True PyNone
     (RecipientList [Message (sample_message \<lparr> send_mode := PyInt 256 \<rparr>)])
     = Inl CellError \<and>
   create_transfer_message sample_collaborators keyless_wallet PyNone PyNone (Some 1) PyNone
     (PyInt 3) False PyNone (RecipientList []) = Inl (KeyError ''private_key'')"
  by (simp add: run_defs)

text \<open>
  C2, as the code has it. A list of five or more recipients makes
  \<open>create_transfer_message\<close> raise its own exception, whatever the collaborators are:
  nothing has been built by then. A list of at most four never raises that exception,
  and the call returns an envelope whenever the recipients and the wallet are fit for
  it: each recipient has an order cell and a send mode of one byte, the replay counter
  fits 32 bits, the cells hold the 576 bits of the body, a signature of 64 bytes is at
  hand (the dummy one, or the real one for any signing message), the deployment data is
  there when \<^verbatim>\<open>seqno\<close> is 0, and the address and the headers of the envelope can be
  built.
\<close>

theorem too_many_recipients:
  "(4 < length rs \<longrightarrow>
      create_transfer_message C self to_addr amnt seqno pl mode dummy st (RecipientList rs)
        = Inl TooManyRecipientsError) \<and>
   (length rs \<le> 4 \<longrightarrow>
      create_transfer_message C self to_addr amnt seqno pl mode dummy st (RecipientList rs)
        \<noteq> Inl TooManyRecipientsError \<and>
      ((\<forall>r \<in> set rs. \<exists>m order n. recipient_message r = Inr m \<and>
            order_cell C m = Inr order \<and> send_mode m = PyInt n \<and> 0 \<le> n \<and> n < 256) \<and>
       (\<forall>n. seqno = Some n \<longrightarrow> 0 \<le> n \<and> n < 2 ^ 32) \<and>
       576 \<le> cell_capacity C \<and>
       (dummy \<or> (\<forall>sm. \<exists>s. real_signature C self sm = Inr s \<and> length s = 64)) \<and>
       (seqno = Some 0 \<longrightarrow> (\<exists>d. create_state_init C self = Inr d)) \<and>
       (\<exists>a h. self_address C self = Inr a \<and>
          create_external_message_header C a = Inr h \<and>
          (\<forall>st' body. \<exists>msg. create_common_msg_info C h st' body = Inr msg))
       \<longrightarrow>
       (\<exists>e. create_transfer_message C self to_addr amnt seqno pl mode dummy st
               (RecipientList rs) = Inr e)))"
proof -
  let ?run = "create_transfer_message C self to_addr amnt seqno pl mode dummy st
      (RecipientList rs)"
  have raise: "?run = Inl TooManyRecipientsError" if "4 < length rs"
    using that by (simp add: create_transfer_message_def normalized_def)
  have pass: "?run =
      and_then (create_signing_message C seqno)
        (\<lambda>sm0. and_then (add_recipients C sm0 rs)
          (\<lambda>sm. create_external_message C self sm seqno dummy))" if "length rs \<le> 4"
    using that by (simp add: create_transfer_message_def normalized_def)
  have other: "and_then (create_signing_message C seqno)
        (\<lambda>sm0. and_then (add_recipients C sm0 rs)
          (\<lambda>sm. create_external_message C self sm seqno dummy))
      \<noteq> Inl TooManyRecipientsError"
    by (auto simp: and_then_Inl
        dest: create_signing_message_Inl add_recipients_Inl create_external_message_Inl)
  have returns: "\<exists>e. ?run = Inr e"
    if len: "length rs \<le> 4"
      and items: "\<forall>r \<in> set rs. \<exists>m order n. recipient_message r = Inr m \<and>
            order_cell C m = Inr order \<and> send_mode m = PyInt n \<and> 0 \<le> n \<and> n < 256"
      and counter: "\<forall>n. seqno = Some n \<longrightarrow> 0 \<le> n \<and> n < 2 ^ 32"
      and cap: "576 \<le> cell_capacity C"
      and sig: "dummy \<or> (\<forall>sm. \<exists>s. real_signature C self sm = Inr s \<and> length s = 64)"
      and deploy: "seqno = Some 0 \<longrightarrow> (\<exists>d. create_state_init C self = Inr d)"
      and assemble: "\<exists>a h. self_address C self = Inr a \<and>
          create_external_message_header C a = Inr h \<and>
          (\<forall>st' body. \<exists>msg. create_common_msg_info C h st' body = Inr msg)"
  proof -
    from counter cap obtain sm0 where
      sm0: "create_signing_message C seqno = Inr sm0" and l0: "length (bits sm0) = 32"
      by (cases seqno) (auto simp: create_signing_message_Inr length_uint_bits)
    from len cap l0 have "length (bits sm0) + 8 * length rs \<le> cell_capacity C"
      by simp
    from add_recipients_returns [OF items this] l0 obtain sm where
      sm: "add_recipients C sm0 rs = Inr sm" and l: "length (bits sm) = 32 + 8 * length rs"
      by auto
    from assemble obtain a h where
      a: "self_address C self = Inr a" and h: "create_external_message_header C a = Inr h"
      and info: "\<forall>st' body. \<exists>msg. create_common_msg_info C h st' body = Inr msg"
      by blast
    from sig have sig': "dummy \<or> (\<exists>s. real_signature C self sm = Inr s \<and> length s = 64)"
      by blast
    from len cap l have cap': "512 + length (bits sm) \<le> cell_capacity C"
      by simp
    from create_external_message_returns [OF sig' cap' deploy a h info]
    obtain e where "create_external_message C self sm seqno dummy = Inr e" by blast
    with sm0 sm show ?thesis
      by (simp add: pass [OF len] and_then_def)
  qed
  show ?thesis
    using raise pass other returns by simp
qed

theorem too_many_recipients_witness:
  "create_transfer_message sample_collaborators sample_wallet PyNone PyNone (Some 0) PyNone
     (PyInt 3) False PyNone
     (RecipientList [Message sample_message, Message sample_message, Message sample_message,
                     Message sample_message, Message sample_message])
     = Inl TooManyRecipientsError \<and>
   create_transfer_message sample_collaborators sample_wallet PyNone PyNone (Some 0) PyNone
     (PyInt 3) False PyNone
     (RecipientList [Message sample_message, Message sample_message, Message sample_message,
                     Message sample_message])
     \<noteq> Inl TooManyRecipientsError \<and>
   (\<exists>e. create_transfer_message sample_collaborators sample_wallet PyNone PyNone (Some 0)
      PyNone (PyInt 3) False PyNone
      (RecipientList [Message sample_message, Message sample_message, Message sample_message,
                      Message sample_message]) = Inr e) \<and>
   (\<exists>e. create_transfer_message sample_collaborators sample_wallet PyNone PyNone (Some 0)
      PyNone (PyInt 3) False PyNone (RecipientList []) = Inr e)"
proof -
  let ?m = "Message sample_message"
  have item: "\<exists>m order n. recipient_message ?m = Inr m \<and>
      order_cell sample_collaborators m = Inr order \<and> send_mode m = PyInt n \<and>
      0 \<le> n \<and> n < 256"
    by (simp add: run_defs)
  have counter: "\<forall>n. Some 0 = Some n \<longrightarrow> 0 \<le> n \<and> n < (2 :: int) ^ 32"
    by simp
  have cap: "576 \<le> cell_capacity sample_collaborators"
    by (simp add: sample_collaborators_def)
  have sig: "False \<or> (\<forall>sm. \<exists>s. real_signature sample_collaborators sample_wallet sm = Inr s \<and>
      length s = 64)"
    by (simp add: run_defs)
  have deploy: "Some (0 :: int) = Some 0 \<longrightarrow>
      (\<exists>d. create_state_init sample_collaborators sample_wallet = Inr d)"
    by (simp add: run_defs)
  have assemble: "\<exists>a h. self_address sample_collaborators sample_wallet = Inr a \<and>
      create_external_message_header sample_collaborators a = Inr h \<and>
      (\<forall>st' body. \<exists>msg. create_common_msg_info sample_collaborators h st' body = Inr msg)"
    by (simp add: run_defs)
  note five = too_many_recipients [of "[?m, ?m, ?m, ?m, ?m]" sample_collaborators
      sample_wallet PyNone PyNone "Some 0" PyNone "PyInt 3" False PyNone]
  note four = too_many_recipients [of "[?m, ?m, ?m, ?m]" sample_collaborators
      sample_wallet PyNone PyNone "Some 0" PyNone "PyInt 3" False PyNone]
  note none = too_many_recipients [of "[]" sample_collaborators
      sample_wallet PyNone PyNone "Some 0" PyNone "PyInt 3" False PyNone]
  from five have a: "create_transfer_message sample_collaborators sample_wallet PyNone PyNone
      (Some 0) PyNone (PyInt 3) False PyNone (RecipientList [?m, ?m, ?m, ?m, ?m])
      = Inl TooManyRecipientsError"
    by simp
  from four item counter cap sig deploy assemble
  have b: "create_transfer_message sample_collaborators sample_wallet PyNone PyNone
        (Some 0) PyNone (PyInt 3) False PyNone (RecipientList [?m, ?m, ?m, ?m])
        \<noteq> Inl TooManyRecipientsError \<and>
      (\<exists>e. create_transfer_message sample_collaborators sample_wallet PyNone PyNone
        (Some 0) PyNone (PyInt 3) False PyNone (RecipientList [?m, ?m, ?m, ?m]) = Inr e)"
    by simp
  from none counter cap sig deploy assemble
  have c: "\<exists>e. create_transfer_message sample_collaborators sample_wallet PyNone PyNone
        (Some 0) PyNone (PyInt 3) False PyNone (RecipientList []) = Inr e"
    by simp
  from a b c show ?thesis by blast
qed

section \<open>A wallet without private key\<close>

lemma real_signature_keyless:
  assumes "map_of (options self) ''private_key'' = None"
  shows "real_signature C self sm =
     (case bytes_hash C sm of Inl msg \<Rightarrow> Inl (CollaboratorError msg)
      | Inr h \<Rightarrow> Inl (KeyError ''private_key''))"
  using assms by (simp add: real_signature_def and_then_def collaborator_def split: sum.splits)

text \<open>
  A wallet without private key, asked for a real signature, does not always end in the
  \<^verbatim>\<open>KeyError\<close>: with five recipients the limit on the recipients is raised first.
\<close>

theorem missing_private_key_counterexample:
  "map_of (options keyless_wallet) ''private_key'' = None \<and>
   create_transfer_message sample_collaborators keyless_wallet PyNone PyNone (Some 1) PyNone
     (PyInt 3) False PyNone
     (RecipientList [Message sample_message, Message sample_message, Message sample_message,
                     Message sample_message, Message sample_message])
     = Inl TooManyRecipientsError"
  by (simp add: run_defs)

text \<open>
  C8, as the code has it. For a wallet whose options hold no \<^verbatim>\<open>private_key\<close>, a call of
  \<open>create_transfer_message\<close> with \<^verbatim>\<open>dummy_signature = False\<close>, and a call of
  \<open>create_init_external_message\<close>, never return an envelope. The exception is the
  \<^verbatim>\<open>KeyError\<close> of the key lookup whenever the steps before it returned (the signing
  message was built and hashed; for the initial message, the deployment data too); a
  step that raises before it wins. With
  \<^verbatim>\<open>dummy_signature = True\<close> the call never raises that \<^verbatim>\<open>KeyError\<close>, and reads the
  wallet only through \<^verbatim>\<open>create_state_init\<close> and \<^verbatim>\<open>self.address\<close>.
\<close>

theorem missing_private_key:
  assumes "map_of (options self) ''private_key'' = None"
  shows
   "(\<forall>e. create_transfer_message C self to_addr amnt seqno pl mode False st rl \<noteq> Inr e) \<and>
    (\<forall>sm0 sm h.
        length (normalized to_addr amnt pl mode st rl) \<le> 4 \<and>
        create_signing_message C seqno = Inr sm0 \<and>
        add_recipients C sm0 (normalized to_addr amnt pl mode st rl) = Inr sm \<and>
        bytes_hash C sm = Inr h \<longrightarrow>
        create_transfer_message C self to_addr amnt seqno pl mode False st rl
          = Inl (KeyError ''private_key'')) \<and>
    (\<forall>e. create_init_external_message C self \<noteq> Inr e) \<and>
    (\<forall>d sm h.
        create_state_init C self = Inr d \<and>
        create_signing_message C None = Inr sm \<and>
        bytes_hash C sm = Inr h \<longrightarrow>
        create_init_external_message C self = Inl (KeyError ''private_key'')) \<and>
    create_transfer_message C self to_addr amnt seqno pl mode True st rl
      \<noteq> Inl (KeyError ''private_key'') \<and>
    (\<forall>self'.
        create_state_init C self' = create_state_init C self \<and>
        self_address C self' = self_address C self \<longrightarrow>
        create_transfer_message C self' to_addr amnt seqno pl mode True st rl
          = create_transfer_message C self to_addr amnt seqno pl mode True st rl)"
proof -
  note sig = real_signature_keyless [OF assms]
  have no_sig: "real_signature C self sm \<noteq> Inr s" for sm s
    by (simp add: sig split: sum.splits)
  have a: "create_transfer_message C self to_addr amnt seqno pl mode False st rl \<noteq> Inr e"
    for e
  proof
    assume "create_transfer_message C self to_addr amnt seqno pl mode False st rl = Inr e"
    from create_transfer_message_Inr [OF this]
    have "create_external_message C self (ext_signing_message e) seqno False = Inr e"
      by simp
    from create_external_message_Inr [OF this] no_sig show False by simp
  qed
  have b: "create_transfer_message C self to_addr amnt seqno pl mode False st rl
          = Inl (KeyError ''private_key'')"
    if "length (normalized to_addr amnt pl mode st rl) \<le> 4"
      "create_signing_message C seqno = Inr sm0"
      "add_recipients C sm0 (normalized to_addr amnt pl mode st rl) = Inr sm"
      "bytes_hash C sm = Inr h" for sm0 sm h
    using that
    by (simp add: create_transfer_message_def create_external_message_def sig and_then_def)
  have c: "create_init_external_message C self \<noteq> Inr e" for e
    using no_sig by (auto simp: create_init_external_message_def and_then_Inr)
  have d: "create_init_external_message C self = Inl (KeyError ''private_key'')"
    if "create_state_init C self = Inr d" "create_signing_message C None = Inr sm"
      "bytes_hash C sm = Inr h" for d sm h
    using that
    by (simp add: create_init_external_message_def sig and_then_def collaborator_def)
  have e: "create_transfer_message C self to_addr amnt seqno pl mode True st rl
      \<noteq> Inl (KeyError ''private_key'')"
    by (auto simp: create_transfer_message_def Let_def and_then_Inl
        dest: create_signing_message_Inl add_recipients_Inl create_external_message_Inl)
  have f: "create_transfer_message C self' to_addr amnt seqno pl mode True st rl
          = create_transfer_message C self to_addr amnt seqno pl mode True st rl"
    if "create_state_init C self' = create_state_init C self"
      "self_address C self' = self_address C self" for self'
  proof -
    from that have eq: "create_external_message C self' sm seqno True
        = create_external_message C self sm seqno True" for sm
      by (simp add: create_external_message_def)
    show ?thesis unfolding create_transfer_message_def eq by (rule refl)
  qed
  from a b c d e f show ?thesis by blast
qed

theorem missing_private_key_witness:
  "WalletContract_init sample_collaborators
       [(''public_key'', PyBytes [1, 2]), (''address'', PyStr ''EQ-W'')] = Inr keyless_wallet \<and>
   map_of (options keyless_wallet) ''private_key'' = None \<and>
   create_transfer_message sample_collaborators keyless_wallet PyNone PyNone (Some 1) PyNone
     (PyInt 3) False PyNone (RecipientList [Message sample_message])
     = Inl (KeyError ''private_key'') \<and>
   create_init_external_message sample_collaborators keyless_wallet
     = Inl (KeyError ''private_key'') \<and>
   (\<exists>e. create_transfer_message sample_collaborators keyless_wallet PyNone PyNone (Some 1)
      PyNone (PyInt 3) True PyNone (RecipientList [Message sample_message]) = Inr e)"
proof -
  have k: "map_of (options keyless_wallet) ''private_key'' = None"
    by (simp add: keyless_wallet_def)
  have init: "WalletContract_init sample_collaborators
       [(''public_key'', PyBytes [1, 2]), (''address'', PyStr ''EQ-W'')] = Inr keyless_wallet"
    by (simp add: WalletContract_init_def dict_contains_def run_defs)
  have dummy: "\<exists>e. create_transfer_message sample_collaborators keyless_wallet PyNone PyNone
      (Some 1) PyNone (PyInt 3) True PyNone (RecipientList [Message sample_message]) = Inr e"
    by (simp add: run_defs)
  have steps: "length (normalized PyNone PyNone PyNone (PyInt 3) PyNone
        (RecipientList [Message sample_message])) \<le> 4 \<and>
      create_signing_message sample_collaborators (Some 1) = Inr (Cell (uint_bits 32 1) []) \<and>
      (\<exists>sm h. add_recipients sample_collaborators (Cell (uint_bits 32 1) [])
        (normalized PyNone PyNone PyNone (PyInt 3) PyNone
           (RecipientList [Message sample_message])) = Inr sm \<and>
        bytes_hash sample_collaborators sm = Inr h)"
    by (simp add: run_defs)
  have steps_init: "\<exists>d sm h. create_state_init sample_collaborators keyless_wallet = Inr d \<and>
      create_signing_message sample_collaborators None = Inr sm \<and>
      bytes_hash sample_collaborators sm = Inr h"
    by (simp add: run_defs)
  from missing_private_key [OF k, of sample_collaborators PyNone PyNone "Some 1" PyNone
      "PyInt 3" PyNone "RecipientList [Message sample_message]"] steps steps_init
  have "create_transfer_message sample_collaborators keyless_wallet PyNone PyNone (Some 1)
      PyNone (PyInt 3) False PyNone (RecipientList [Message sample_message])
      = Inl (KeyError ''private_key'') \<and>
    create_init_external_message sample_collaborators keyless_wallet
      = Inl (KeyError ''private_key'')"
    by blast
  with k init dummy show ?thesis by simp
qed

section \<open>Single recipients\<close>

text \<open>
  A dict passed in place of the list is not wrapped into a list: \<^verbatim>\<open>len\<close> counts its keys
  and the loop visits them, so the call ends in an \<^verbatim>\<open>AttributeError\<close>, while the list
  of that one dict returns an envelope.
\<close>

theorem single_recipient_counterexample:
  "create_transfer_message sample_collaborators sample_wallet PyNone PyNone (Some 7) PyNone
     (PyInt 3) True PyNone
     (OneMapping [(''address'', PyStr ''EQ-A''), (''amount'', PyInt 5)])
     = Inl (AttributeError ''payload'') \<and>
   create_transfer_message sample_collaborators sample_wallet PyNone PyNone (Some 7) PyNone
     (PyInt 3) True PyNone
     (OneMapping [(''address'', PyStr ''EQ-A''), (''amount'', PyInt 5)])
   \<noteq> create_transfer_message sample_collaborators sample_wallet PyNone PyNone (Some 7) PyNone
     (PyInt 3) True PyNone
     (RecipientList [Mapping [(''address'', PyStr ''EQ-A''), (''amount'', PyInt 5)]])"
  by (simp add: run_defs from_dict_def dict_get_def default_send_mode_value)

text \<open>
  C9, as the code has it. A single \<^verbatim>\<open>WalletMessage\<close> passed as \<^verbatim>\<open>recipients_list\<close>
  gives what the list of that one message gives, and a dict inside a list gives what
  the message read from it by \<open>from_dict\<close> gives. A dict passed in place of the list is
  not wrapped.
\<close>

theorem single_recipient:
  "create_transfer_message C self to_addr amnt seqno pl mode dummy st (OneMessage m)
     = create_transfer_message C self to_addr amnt seqno pl mode dummy st
         (RecipientList [Message m]) \<and>
   create_transfer_message C self to_addr amnt seqno pl mode dummy st
       (RecipientList [Mapping d])
     = create_transfer_message C self to_addr amnt seqno pl mode dummy st
         (RecipientList [Message (from_dict d)])"
  by (simp add: create_transfer_message_def normalized_def add_recipient_def
      recipient_message_def)

theorem single_recipient_witness:
  "(\<exists>e. create_transfer_message sample_collaborators sample_wallet PyNone PyNone (Some 7)
      PyNone (PyInt 3) True PyNone (OneMessage sample_message) = Inr e \<and>
      create_transfer_message sample_collaborators sample_wallet PyNone PyNone (Some 7)
      PyNone (PyInt 3) True PyNone (RecipientList [Message sample_message]) = Inr e) \<and>
   (\<exists>e. create_transfer_message sample_collaborators sample_wallet PyNone PyNone (Some 7)
      PyNone (PyInt 3) True PyNone
      (RecipientList [Mapping [(''address'', PyStr ''EQ-A''), (''amount'', PyInt 5)]]) = Inr e \<and>
      create_transfer_message sample_collaborators sample_wallet PyNone PyNone (Some 7)
      PyNone (PyInt 3) True PyNone
      (RecipientList [Message \<lparr> address = PyStr ''EQ-A'', amount = PyInt 5,
         send_mode = PyInt 3, payload = PyNone, state_init = PyNone \<rparr>]) = Inr e)"
proof -
  let ?d = "[(''address'', PyStr ''EQ-A''), (''amount'', PyInt 5)]"
  have a: "\<exists>e. create_transfer_message sample_collaborators sample_wallet PyNone PyNone
      (Some 7) PyNone (PyInt 3) True PyNone (OneMessage sample_message) = Inr e"
    by (simp add: run_defs)
  have b: "\<exists>e. create_transfer_message sample_collaborators sample_wallet PyNone PyNone
      (Some 7) PyNone (PyInt 3) True PyNone (RecipientList [Mapping ?d]) = Inr e"
    by (simp add: run_defs from_dict_def dict_get_def default_send_mode_value)
  have c: "from_dict ?d = \<lparr> address = PyStr ''EQ-A'', amount = PyInt 5,
         send_mode = PyInt 3, payload = PyNone, state_init = PyNone \<rparr>"
    by (simp add: from_dict_def dict_get_def default_send_mode_value)
  from single_recipient [of sample_collaborators sample_wallet PyNone PyNone "Some 7" PyNone
      "PyInt 3" True PyNone sample_message ?d] a b c
  show ?thesis by auto
qed

section \<open>The payload cell\<close>

text \<open>
  The empty text is a text payload, and its cell does not start with the 32-bit marker:
  \<^verbatim>\<open>if payload:\<close> is false for it, and the cell stays empty.
\<close>

theorem payload_dispatch_counterexample:
  "payload_cell 1023 (PyStr '''') = Inr (Cell [] []) \<and>
   payload_cell 1023 (PyStr '''')
     \<noteq> Inr (Cell (replicate 32 False @ bytes_bits (utf8 '''')) [])"
  by (simp add: payload_cell_def)

text \<open>
  C4, as the code has it. An absent payload gives the empty cell; so does the empty
  text, which gets no marker. A text that is not empty gives a cell
  of 32 zero bits followed by the bytes of its UTF-8 encoding, when they fit the cell; a
  pre-built cell is the payload cell itself; bytes are written as they are, with no
  marker, when they fit. The order of a message is built from this cell.
\<close>

theorem payload_dispatch:
  "payload_cell cap PyNone = Inr (Cell [] []) \<and>
   payload_cell cap (PyStr '''') = Inr (Cell [] []) \<and>
   (s \<noteq> '''' \<longrightarrow>
      payload_cell cap (PyStr s) =
        (if 32 + 8 * length s \<le> cap
         then Inr (Cell (replicate 32 False @ bytes_bits (utf8 s)) [])
         else Inl CellError)) \<and>
   payload_cell cap (PyCell c) = Inr c \<and>
   payload_cell cap (PyBytes bs) =
     (if 8 * length bs \<le> cap then Inr (Cell (bytes_bits bs) []) else Inl CellError) \<and>
   (order_cell C m = Inr order \<longrightarrow>
      (\<exists>pc dest header.
         payload_cell (cell_capacity C) (payload m) = Inr pc \<and>
         Address C (address m) = Inr dest \<and>
         create_internal_message_header C dest (amount m) = Inr header \<and>
         create_common_msg_info C header (state_init m) pc = Inr order))"
proof -
  have absent: "payload_cell cap PyNone = Inr (Cell [] [])"
    and empty_text: "payload_cell cap (PyStr '''') = Inr (Cell [] [])"
    and prebuilt: "payload_cell cap (PyCell c) = Inr c"
    by (simp_all add: payload_cell_def)
  have nonempty_text: "payload_cell cap (PyStr s) =
        (if 32 + 8 * length s \<le> cap
         then Inr (Cell (replicate 32 False @ bytes_bits (utf8 s)) [])
         else Inl CellError)" if "s \<noteq> ''''"
    using that
    by (simp add: payload_cell_def write_string_def write_bytes_def write_uint_def
        write_bits_def and_then_def uint_bits_zero length_bytes_bits length_utf8)
  have raw_bytes: "payload_cell cap (PyBytes bs) =
     (if 8 * length bs \<le> cap then Inr (Cell (bytes_bits bs) []) else Inl CellError)"
  proof (cases "bs = []")
    case True
    then show ?thesis by (simp add: payload_cell_def bytes_bits_def)
  next
    case False
    then show ?thesis
      by (simp add: payload_cell_def write_bytes_def write_bits_def length_bytes_bits)
  qed
  have in_order: "\<exists>pc dest header.
         payload_cell (cell_capacity C) (payload m) = Inr pc \<and>
         Address C (address m) = Inr dest \<and>
         create_internal_message_header C dest (amount m) = Inr header \<and>
         create_common_msg_info C header (state_init m) pc = Inr order"
    if "order_cell C m = Inr order"
    using that by (auto simp: order_cell_def and_then_Inr collaborator_Inr)
  from absent empty_text prebuilt nonempty_text raw_bytes in_order show ?thesis by simp
qed

theorem payload_dispatch_witness:
  "payload_cell 1023 PyNone = Inr (Cell [] []) \<and>
   payload_cell 1023 (PyStr ''hi'') = Inr (Cell (replicate 32 False @ bytes_bits (utf8 ''hi'')) []) \<and>
   payload_cell 1023 (PyCell (Cell [True] [Cell [] []])) = Inr (Cell [True] [Cell [] []]) \<and>
   payload_cell 1023 (PyBytes [1, 255]) = Inr (Cell (bytes_bits [1, 255]) []) \<and>
   order_cell sample_collaborators (sample_message \<lparr> payload := PyStr ''hi'' \<rparr>)
     = Inr (Cell [False] [Cell (replicate 32 False @ bytes_bits (utf8 ''hi'')) []])"
proof -
  have run: "order_cell sample_collaborators (sample_message \<lparr> payload := PyStr ''hi'' \<rparr>)
     = Inr (Cell [False] [Cell (replicate 32 False @ bytes_bits (utf8 ''hi'')) []])"
    by (simp add: run_defs uint_bits_zero)
  from payload_dispatch [where cap = 1023 and s = "''hi''" and c = "Cell [True] [Cell [] []]"
      and bs = "[1, 255]" and C = sample_collaborators
      and m = "sample_message \<lparr> payload := PyStr ''hi'' \<rparr>"
      and order = "Cell [False] [Cell (replicate 32 False @ bytes_bits (utf8 ''hi'')) []]"]
    run
  show ?thesis by simp
qed

section \<open>The signature\<close>

text \<open>
  C3. With \<^verbatim>\<open>dummy_signature = True\<close> the signature of the envelope is 64 zero bytes,
  the same for every wallet, whatever its keys. With \<^verbatim>\<open>dummy_signature = False\<close> it is
  what the signing primitive returns for the hash of the signing message and the value
  of the option \<^verbatim>\<open>private_key\<close>; so, the primitive separating the hashes and keys it is
  used with, a second call whose hash or whose private key is another one has another
  signature.
\<close>

theorem signature_of_external_message:
  assumes "create_external_message C self sm seqno dummy = Inr e"
  shows "(dummy \<longrightarrow>
            ext_signature e = replicate 64 0 \<and>
            (\<forall>self' sm' seqno' e'.
               create_external_message C self' sm' seqno' True = Inr e' \<longrightarrow>
               ext_signature e' = ext_signature e)) \<and>
         (\<not> dummy \<longrightarrow>
            (\<exists>h key. bytes_hash C sm = Inr h \<and>
               map_of (options self) ''private_key'' = Some key \<and>
               sign_message C h key = Inr (ext_signature e) \<and>
               (\<forall>D self' sm' seqno' e' h' key'.
                  separates C D \<and> (h, key) \<in> D \<and> (h', key') \<in> D \<and>
                  create_external_message C self' sm' seqno' False = Inr e' \<and>
                  bytes_hash C sm' = Inr h' \<and>
                  map_of (options self') ''private_key'' = Some key' \<and>
                  (h' \<noteq> h \<or> key' \<noteq> key)
                  \<longrightarrow> ext_signature e' \<noteq> ext_signature e)))"
proof -
  have sig: "(if d then Inr (replicate 64 0) else real_signature C w m) = Inr (ext_signature x)"
    if "create_external_message C w m n d = Inr x" for w m n d x
    using create_external_message_Inr [OF that] by simp
  have real: "\<exists>h key. bytes_hash C m = Inr h \<and>
               map_of (options w) ''private_key'' = Some key \<and>
               sign_message C h key = Inr s"
    if "real_signature C w m = Inr s" for w m s
    using that
    by (auto simp: real_signature_def and_then_Inr collaborator_Inr split: option.splits)
  have a: "ext_signature e = replicate 64 0" if dummy
    using sig [OF assms] that by simp
  have a': "ext_signature e' = ext_signature e"
    if dummy "create_external_message C self' sm' seqno' True = Inr e'"
    for self' sm' seqno' e'
    using sig [OF that(2)] a [OF that(1)] by simp
  have b: "\<exists>h key. bytes_hash C sm = Inr h \<and>
               map_of (options self) ''private_key'' = Some key \<and>
               sign_message C h key = Inr (ext_signature e) \<and>
               (\<forall>D self' sm' seqno' e' h' key'.
                  separates C D \<and> (h, key) \<in> D \<and> (h', key') \<in> D \<and>
                  create_external_message C self' sm' seqno' False = Inr e' \<and>
                  bytes_hash C sm' = Inr h' \<and>
                  map_of (options self') ''private_key'' = Some key' \<and>
                  (h' \<noteq> h \<or> key' \<noteq> key)
                  \<longrightarrow> ext_signature e' \<noteq> ext_signature e)" if "\<not> dummy"
  proof -
    from sig [OF assms] that have "real_signature C self sm = Inr (ext_signature e)"
      by simp
    from real [OF this] obtain h key where
      h: "bytes_hash C sm = Inr h" and key: "map_of (options self) ''private_key'' = Some key"
      and s: "sign_message C h key = Inr (ext_signature e)"
      by blast
    have "ext_signature e' \<noteq> ext_signature e"
      if sep: "separates C D" and dom: "(h, key) \<in> D" "(h', key') \<in> D"
        and run: "create_external_message C self' sm' seqno' False = Inr e'"
        and h': "bytes_hash C sm' = Inr h'"
        and key': "map_of (options self') ''private_key'' = Some key'"
        and ne: "h' \<noteq> h \<or> key' \<noteq> key"
      for D self' sm' seqno' e' h' key'
    proof
      assume eq: "ext_signature e' = ext_signature e"
      from sig [OF run] have "real_signature C self' sm' = Inr (ext_signature e')"
        by simp
      from real [OF this] h' key' have "sign_message C h' key' = Inr (ext_signature e')"
        by auto
      with eq have "sign_message C h' key' = Inr (ext_signature e)" by simp
      with sep dom s have "h = h' \<and> key = key'"
        unfolding separates_def by blast
      with ne show False by simp
    qed
    with h key s show ?thesis by blast
  qed
  from a a' b show ?thesis by blast
qed

theorem signature_of_external_message_witness:
  "separates sample_collaborators sample_signing_domain \<and>
   (\<exists>e1 e2.
      create_external_message sample_collaborators first_wallet (Cell [] []) (Some 1) True
        = Inr e1 \<and>
      create_external_message sample_collaborators keyless_wallet (Cell [] []) (Some 1) True
        = Inr e2 \<and>
      ext_signature e1 = replicate 64 0 \<and> ext_signature e2 = ext_signature e1) \<and>
   (\<exists>e1 e2 e3.
      create_external_message sample_collaborators first_wallet (Cell [] []) (Some 1) False
        = Inr e1 \<and>
      create_external_message sample_collaborators second_wallet (Cell [] []) (Some 1) False
        = Inr e2 \<and>
      create_external_message sample_collaborators first_wallet (Cell [True] []) (Some 1) False
        = Inr e3 \<and>
      sign_message sample_collaborators [0, 0] (PyBytes (replicate 32 1))
        = Inr (ext_signature e1) \<and>
      ext_signature e2 \<noteq> ext_signature e1 \<and>
      ext_signature e3 \<noteq> ext_signature e1)"
proof -
  let ?C = sample_collaborators
  let ?D = sample_signing_domain
  obtain d1 where d1: "create_external_message ?C first_wallet (Cell [] []) (Some 1) True
      = Inr d1"
    by (simp add: run_defs first_wallet_def)
  obtain d2 where d2: "create_external_message ?C keyless_wallet (Cell [] []) (Some 1) True
      = Inr d2"
    by (simp add: run_defs)
  obtain e1 where e1: "create_external_message ?C first_wallet (Cell [] []) (Some 1) False
      = Inr e1"
    by (simp add: run_defs first_wallet_def)
  obtain e2 where e2: "create_external_message ?C second_wallet (Cell [] []) (Some 1) False
      = Inr e2"
    by (simp add: run_defs second_wallet_def)
  obtain e3 where e3: "create_external_message ?C first_wallet (Cell [True] []) (Some 1) False
      = Inr e3"
    by (simp add: run_defs first_wallet_def)
  have h1: "bytes_hash ?C (Cell [] []) = Inr [0, 0]"
    and h3: "bytes_hash ?C (Cell [True] []) = Inr [1, 0]"
    and k1: "map_of (options first_wallet) ''private_key'' = Some (PyBytes (replicate 32 1))"
    and k2: "map_of (options second_wallet) ''private_key'' = Some (PyBytes (replicate 32 2))"
    by (simp_all add: sample_collaborators_def first_wallet_def second_wallet_def)
  have dom: "([0, 0], PyBytes (replicate 32 1)) \<in> ?D"
    "([0, 0], PyBytes (replicate 32 2)) \<in> ?D"
    "([1, 0], PyBytes (replicate 32 1)) \<in> ?D"
    by (simp_all add: sample_signing_domain_def)
  from signature_of_external_message [OF d1] d2
  have zero: "ext_signature d1 = replicate 64 0 \<and> ext_signature d2 = ext_signature d1"
    by blast
  have "\<exists>h key. bytes_hash ?C (Cell [] []) = Inr h \<and>
      map_of (options first_wallet) ''private_key'' = Some key \<and>
      sign_message ?C h key = Inr (ext_signature e1) \<and>
      (\<forall>D self' sm' seqno' e' h' key'.
         separates ?C D \<and> (h, key) \<in> D \<and> (h', key') \<in> D \<and>
         create_external_message ?C self' sm' seqno' False = Inr e' \<and>
         bytes_hash ?C sm' = Inr h' \<and>
         map_of (options self') ''private_key'' = Some key' \<and>
         (h' \<noteq> h \<or> key' \<noteq> key)
         \<longrightarrow> ext_signature e' \<noteq> ext_signature e1)"
    using signature_of_external_message [OF e1] by simp
  then obtain h key where
    h: "bytes_hash ?C (Cell [] []) = Inr h" and
    key: "map_of (options first_wallet) ''private_key'' = Some key" and
    s: "sign_message ?C h key = Inr (ext_signature e1)" and
    differ: "\<And>D self' sm' seqno' e' h' key'.
         separates ?C D \<Longrightarrow> (h, key) \<in> D \<Longrightarrow> (h', key') \<in> D \<Longrightarrow>
         create_external_message ?C self' sm' seqno' False = Inr e' \<Longrightarrow>
         bytes_hash ?C sm' = Inr h' \<Longrightarrow>
         map_of (options self') ''private_key'' = Some key' \<Longrightarrow>
         h' \<noteq> h \<or> key' \<noteq> key \<Longrightarrow> ext_signature e' \<noteq> ext_signature e1"
    by blast
  from h h1 have h_eq: "h = [0, 0]" by simp
  from key k1 have key_eq: "key = PyBytes (replicate 32 1)" by simp
  from s h_eq key_eq
  have s1: "sign_message ?C [0, 0] (PyBytes (replicate 32 1)) = Inr (ext_signature e1)"
    by simp
  have n2: "ext_signature e2 \<noteq> ext_signature e1"
    by (rule differ [OF sample_separates _ dom(2) e2 h1 k2])
      (simp_all add: h_eq key_eq dom)
  have n3: "ext_signature e3 \<noteq> ext_signature e1"
    by (rule differ [OF sample_separates _ dom(3) e3 h3 k1])
      (simp_all add: h_eq key_eq dom)
  from sample_separates d1 d2 zero e1 e2 e3 s1 n2 n3 show ?thesis by blast
qed

end
